theory Spec2Isabelle
  imports Main
begin

section \<open>Values of the object language\<close>

text \<open>
  The JavaScript values that a field of \<^verbatim>\<open>dist/fields.js\<close> stores, receives and returns.
  Plain data is JSON shaped; a Document and a Schema are objects with an identity and are
  referred to by an address; \<^verbatim>\<open>InvalidFieldError\<close> is the error class of the file, with
  the five properties its constructor assigns (path, errors, related, message, code);
  \<^verbatim>\<open>TypeError\<close> is what the runtime throws when a property of undefined or null is read
  or when something that is not a function is called. Numbers are the integers.
\<close>

datatype val =
    Undefined
  | Null
  | Bool bool
  | Num int
  | Str string
  | Arr "val list"
  | Obj "(string \<times> val) list"
  | DocV nat
  | SchemaV nat
  | InvalidFieldError val val val val val
  | TypeError

text \<open>An exception, or the rejection of the promise of an asynchronous method, is \<open>Throw\<close>.\<close>

datatype 'a outcome = Return 'a | Throw val

text \<open>JavaScript truthiness, \<^verbatim>\<open>Array.isArray\<close>, \<^verbatim>\<open>x instanceof Schema\<close> and \<^verbatim>\<open>x[0]\<close>.\<close>

fun truthy :: "val \<Rightarrow> bool" where
  "truthy Undefined = False"
| "truthy Null = False"
| "truthy (Bool b) = b"
| "truthy (Num n) = (n \<noteq> 0)"
| "truthy (Str s) = (s \<noteq> [])"
| "truthy v = True"

fun isArray :: "val \<Rightarrow> bool" where
  "isArray (Arr vs) = True"
| "isArray v = False"

fun instanceofSchema :: "val \<Rightarrow> bool" where
  "instanceofSchema (SchemaV s) = True"
| "instanceofSchema v = False"

fun elements :: "val \<Rightarrow> val list" where
  "elements (Arr vs) = vs"
| "elements v = []"

fun index0 :: "val \<Rightarrow> val" where
  "index0 (Arr (v # vs)) = v"
| "index0 v = Undefined"

section \<open>Schema, Document and Field objects\<close>

text \<open>
  A callback of a field definition (\<^verbatim>\<open>get\<close>, \<^verbatim>\<open>set\<close>, a function valued
  \<^verbatim>\<open>defaultValue\<close>) takes its receiver (\<^verbatim>\<open>this\<close>) and its first argument.
\<close>

type_synonym callback = "val \<Rightarrow> val \<Rightarrow> val"

datatype defval = Literal val | Generator callback

record fieldDefinition =
  def_type :: val
  def_get :: "callback option"
  def_set :: "callback option"
  def_defaultValue :: defval
  def_validate :: val

record 's options =
  types :: "string \<rightharpoonup> (val \<Rightarrow> 's \<Rightarrow> val \<times> 's)"

record 's schema =
  schema_fields :: "string \<rightharpoonup> fieldDefinition"
  typeOptions :: "'s options"

record 's document =
  doc_id :: nat
  schema :: "'s schema"

text \<open>
  The four own properties that the constructor of \<^verbatim>\<open>Field\<close> defines:
  \<^verbatim>\<open>$document\<close>, \<^verbatim>\<open>$name\<close>, \<^verbatim>\<open>_value\<close> and \<^verbatim>\<open>_initialValue\<close>.
\<close>

record 's field =
  document :: "'s document"
  name :: string
  stored_value :: val
  stored_initialValue :: val

text \<open>
  The state a method runs in: the field itself (\<^verbatim>\<open>this\<close>) and the rest of the object
  graph (\<open>world\<close>: the nested documents and whatever the consumed libraries keep), which
  only the consumed operations below read and write.
\<close>

record 's state =
  self :: "'s field"
  world :: 's

type_synonym ('s, 'a) action = "'s state \<Rightarrow> 'a outcome \<times> 's state"

section \<open>Consumed capabilities\<close>

text \<open>
  What \<^verbatim>\<open>fields.js\<close> calls and does not define, taken as parameters:
  \<^item> \<open>cast\<close>: \<^verbatim>\<open>cast(value, type, options)\<close> of the typeable package;
  \<^item> \<open>isPresent\<close>, \<open>isAbsent\<close>: the predicates of the same package;
  \<^item> \<open>deepEqual\<close>: the deep-equal package, \<open>cloneData\<close>: \<^verbatim>\<open>cloneData\<close> of \<^verbatim>\<open>./utils\<close>;
  \<^item> \<open>construct a b c\<close>: \<^verbatim>\<open>new this.$document.constructor(a, b, c)\<close>, the arguments in
    the order of the call;
  \<^item> \<open>validator_validate d v rules\<close>: \<^verbatim>\<open>this.$document.$validator.validate(v, rules)\<close> on
    the document \<open>d\<close>, which resolves to an array of issues or rejects;
  \<^item> \<open>document_validate a\<close>, \<open>document_commit a\<close>: the methods \<^verbatim>\<open>validate()\<close> and
    \<^verbatim>\<open>commit()\<close> of the Document at address \<open>a\<close>.
\<close>

record 's env =
  cast :: "val \<Rightarrow> val \<Rightarrow> 's options \<Rightarrow> 's \<Rightarrow> val \<times> 's"
  isPresent :: "val \<Rightarrow> bool"
  isAbsent :: "val \<Rightarrow> bool"
  deepEqual :: "'s \<Rightarrow> val \<Rightarrow> val \<Rightarrow> bool"
  cloneData :: "val \<Rightarrow> 's \<Rightarrow> val \<times> 's"
  construct :: "val \<Rightarrow> val \<Rightarrow> val \<Rightarrow> 's \<Rightarrow> val \<times> 's"
  validator_validate :: "val \<Rightarrow> val \<Rightarrow> val \<Rightarrow> 's \<Rightarrow> val list outcome \<times> 's"
  document_validate :: "nat \<Rightarrow> 's \<Rightarrow> val outcome \<times> 's"
  document_commit :: "nat \<Rightarrow> 's \<Rightarrow> 's"

section \<open>Sequencing\<close>

text \<open>Run \<open>m\<close>; when it throws, stop with its exception; otherwise continue with \<open>k\<close>.\<close>

definition then_do :: "('s, 'a) action \<Rightarrow> ('a \<Rightarrow> ('s, 'b) action) \<Rightarrow> ('s, 'b) action" where
  "then_do m k st = (case m st of (Throw e, st') \<Rightarrow> (Throw e, st') | (Return x, st') \<Rightarrow> k x st')"

definition return :: "'a \<Rightarrow> ('s, 'a) action" where
  "return x st = (Return x, st)"

text \<open>A consumed operation acts on the world and leaves the field alone.\<close>

definition on_world :: "('s \<Rightarrow> 'a \<times> 's) \<Rightarrow> ('s, 'a) action" where
  "on_world f st = (case f (world st) of (x, w) \<Rightarrow> (Return x, st\<lparr>world := w\<rparr>))"

definition on_world_async :: "('s \<Rightarrow> 'a outcome \<times> 's) \<Rightarrow> ('s, 'a) action" where
  "on_world_async f st = (case f (world st) of (r, w) \<Rightarrow> (r, st\<lparr>world := w\<rparr>))"

section \<open>The class Field\<close>

text \<open>\<^verbatim>\<open>this.$document\<close> as a value, and a read of an own property of the field by name.\<close>

definition this_document :: "'s field \<Rightarrow> val" where
  "this_document f = DocV (doc_id (document f))"

definition get_prop :: "'s field \<Rightarrow> string \<Rightarrow> val" where
  "get_prop f k =
     (if k = ''$document'' then this_document f
      else if k = ''$name'' then Str (name f)
      else if k = ''_value'' then stored_value f
      else if k = ''_initialValue'' then stored_initialValue f
      else Undefined)"

text \<open>
  \<^verbatim>\<open>this.$document.$schema.fields[this.$name]\<close>, destructured: a \<^verbatim>\<open>TypeError\<close> when the
  schema has no field of that name.
\<close>

definition the_definition :: "('s, fieldDefinition) action" where
  "the_definition st =
     (case schema_fields (schema (document (self st))) (name (self st)) of
        None \<Rightarrow> (Throw TypeError, st)
      | Some d \<Rightarrow> (Return d, st))"

text \<open>\<^verbatim>\<open>f.call(this.$document, value)\<close> when the transform \<open>f\<close> is present.\<close>

definition transform :: "callback option \<Rightarrow> 's field \<Rightarrow> val \<Rightarrow> val" where
  "transform f this v = (case f of None \<Rightarrow> v | Some g \<Rightarrow> g (this_document this) v)"

text \<open>\<^verbatim>\<open>get value()\<close>\<close>

definition get_value :: "('s, val) action" where
  "get_value =
     then_do the_definition (\<lambda>d st.
       (Return (transform (def_get d) (self st) (stored_value (self st))), st))"

text \<open>
  \<^verbatim>\<open>_cast(value, type)\<close>. The resolver stored under \<^verbatim>\<open>Schema\<close> unwraps an array type to
  its first element and calls the constructor of the owning document with the type, the
  value and the owning document, in this order. \<open>cast_options\<close> is the options object
  handed to \<^verbatim>\<open>cast\<close>: the type options of the schema with that resolver registered. (The
  source also stores the new \<^verbatim>\<open>types\<close> on the options object of the schema; every call
  registers its own resolver again, so the stored one is never the one used. The source
  reassigns the variable \<^verbatim>\<open>type\<close> inside the resolver; for a Schema and for an array of
  a Schema the unwrapped type is the same at every call.)
\<close>

definition schemaResolver :: "'s env \<Rightarrow> 's field \<Rightarrow> val \<Rightarrow> val \<Rightarrow> 's \<Rightarrow> val \<times> 's" where
  "schemaResolver env this type v =
     construct env (if isArray type then index0 type else type) v (this_document this)"

definition cast_options :: "'s env \<Rightarrow> 's field \<Rightarrow> val \<Rightarrow> 's options" where
  "cast_options env this type =
     (let options = typeOptions (schema (document this))
      in options\<lparr>types := (types options)(''Schema'' \<mapsto> schemaResolver env this type)\<rparr>)"

definition Field_cast :: "'s env \<Rightarrow> val \<Rightarrow> val \<Rightarrow> ('s, val) action" where
  "Field_cast env v type st = on_world (cast env v type (cast_options env (self st) type)) st"

text \<open>\<^verbatim>\<open>set value(value)\<close>\<close>

definition set_value :: "'s env \<Rightarrow> val \<Rightarrow> ('s, unit) action" where
  "set_value env v =
     then_do the_definition (\<lambda>d.
     then_do (Field_cast env v (def_type d)) (\<lambda>v' st.
       (Return (), st\<lparr>self := (self st)\<lparr>stored_value := transform (def_set d) (self st) v'\<rparr>\<rparr>)))"

text \<open>
  \<^verbatim>\<open>get defaultValue()\<close>. A function valued default is called as a plain function (no
  receiver) with \<^verbatim>\<open>this._document\<close> as its argument.
\<close>

definition defaultValue :: "'s env \<Rightarrow> ('s, val) action" where
  "defaultValue env =
     then_do the_definition (\<lambda>d st.
       let v = (case def_defaultValue d of
                  Generator g \<Rightarrow> g Undefined (get_prop (self st) ''_document'')
                | Literal l \<Rightarrow> l)
       in then_do (Field_cast env v (def_type d)) (\<lambda>v' st'.
            (Return (transform (def_set d) (self st') v'), st')) st)"

text \<open>
  \<^verbatim>\<open>constructor(document, name)\<close>: the properties are defined one after the other, so
  \<^verbatim>\<open>this.defaultValue\<close> is read while \<^verbatim>\<open>_value\<close> and \<^verbatim>\<open>_initialValue\<close> are still
  undefined.
\<close>

definition uninitialised :: "'s document \<Rightarrow> string \<Rightarrow> 's \<Rightarrow> 's state" where
  "uninitialised doc nm w =
     \<lparr>self = \<lparr>document = doc, name = nm, stored_value = Undefined, stored_initialValue = Undefined\<rparr>,
      world = w\<rparr>"

definition Field_constructor :: "'s env \<Rightarrow> 's document \<Rightarrow> string \<Rightarrow> 's \<Rightarrow> unit outcome \<times> 's state" where
  "Field_constructor env doc nm w =
     then_do (defaultValue env) (\<lambda>v st.
       let st1 = st\<lparr>self := (self st)\<lparr>stored_value := v\<rparr>\<rparr>;
           st2 = st1\<lparr>self := (self st1)\<lparr>stored_initialValue := stored_value (self st1)\<rparr>\<rparr>
       in (Return (), st2))
     (uninitialised doc nm w)"

text \<open>\<^verbatim>\<open>get initialValue()\<close>\<close>

definition initialValue :: "('s, val) action" where
  "initialValue st = (Return (stored_initialValue (self st)), st)"

text \<open>\<^verbatim>\<open>reset()\<close>, \<^verbatim>\<open>clear()\<close> and \<^verbatim>\<open>rollback()\<close>: each assigns through the setter and returns \<^verbatim>\<open>this\<close>.\<close>

definition reset :: "'s env \<Rightarrow> ('s, 's field) action" where
  "reset env =
     then_do (defaultValue env) (\<lambda>v.
     then_do (set_value env v) (\<lambda>_ st. (Return (self st), st)))"

definition clear :: "'s env \<Rightarrow> ('s, 's field) action" where
  "clear env = then_do (set_value env Null) (\<lambda>_ st. (Return (self st), st))"

definition rollback :: "'s env \<Rightarrow> ('s, 's field) action" where
  "rollback env =
     then_do initialValue (\<lambda>v.
     then_do (set_value env v) (\<lambda>_ st. (Return (self st), st)))"

text \<open>
  \<^verbatim>\<open>data.commit\<close> is truthy: a Document has the method; a plain object has it when it has
  a truthy property of that name; nothing else does. \<^verbatim>\<open>data.commit()\<close> commits a
  Document and is a \<^verbatim>\<open>TypeError\<close> on anything else (not a function).
\<close>

fun has_commit :: "val \<Rightarrow> bool" where
  "has_commit (DocV a) = True"
| "has_commit (Obj ps) = (case map_of ps ''commit'' of None \<Rightarrow> False | Some p \<Rightarrow> truthy p)"
| "has_commit v = False"

fun call_commit :: "'s env \<Rightarrow> val \<Rightarrow> ('s, unit) action" where
  "call_commit env (DocV a) st = (Return (), st\<lparr>world := document_commit env a (world st)\<rparr>)"
| "call_commit env v st = (Throw TypeError, st)"

text \<open>\<^verbatim>\<open>_commitRelated(data)\<close>, with the \<^verbatim>\<open>forEach\<close> over an array as its own function.\<close>

function commitRelated :: "'s env \<Rightarrow> val \<Rightarrow> ('s, unit) action"
  and commitRelated_forEach :: "'s env \<Rightarrow> val list \<Rightarrow> ('s, unit) action" where
  "commitRelated env data st =
     (if truthy data \<and> has_commit data then call_commit env data st
      else if truthy data \<and> isArray data then commitRelated_forEach env (elements data) st
      else (Return (), st))"
| "commitRelated_forEach env [] st = (Return (), st)"
| "commitRelated_forEach env (d # ds) st =
     (case commitRelated env d st of
        (Throw e, st') \<Rightarrow> (Throw e, st')
      | (Return u, st') \<Rightarrow> commitRelated_forEach env ds st')"
  by pat_completeness auto
termination
proof (relation "measure (\<lambda>x. case x of
          Inl (env, data, st) \<Rightarrow> 2 * size data
        | Inr (env, ds, st) \<Rightarrow> 2 * size_list size ds + 1)")
  show "wf (measure (\<lambda>x. case x of
          Inl (env :: 's env, data, st :: 's state) \<Rightarrow> 2 * size data
        | Inr (env, ds, st) \<Rightarrow> 2 * size_list size ds + 1))"
    by simp
next
  fix env :: "'s env" and data :: val and st :: "'s state"
  assume "truthy data \<and> isArray data"
  then show "(Inr (env, elements data, st), Inl (env, data, st))
     \<in> measure (\<lambda>x. case x of
          Inl (env, data, st) \<Rightarrow> 2 * size data
        | Inr (env, ds, st) \<Rightarrow> 2 * size_list size ds + 1)"
    by (cases data) simp_all
qed simp_all

text \<open>\<^verbatim>\<open>commit()\<close>\<close>

definition commit :: "'s env \<Rightarrow> ('s, 's field) action" where
  "commit env =
     then_do get_value (\<lambda>v.
     then_do (commitRelated env v) (\<lambda>_.
     then_do get_value (\<lambda>v'.
     then_do (on_world (cloneData env v')) (\<lambda>c st.
       let st' = st\<lparr>self := (self st)\<lparr>stored_initialValue := c\<rparr>\<rparr>
       in (Return (self st'), st')))))"

text \<open>\<^verbatim>\<open>equals(data)\<close> and \<^verbatim>\<open>isChanged()\<close>\<close>

definition equals :: "'s env \<Rightarrow> val \<Rightarrow> ('s, bool) action" where
  "equals env data =
     then_do get_value (\<lambda>v st. (Return (deepEqual env (world st) v data), st))"

definition isChanged :: "'s env \<Rightarrow> ('s, bool) action" where
  "isChanged env =
     then_do initialValue (\<lambda>i.
     then_do (equals env i) (\<lambda>b. return (\<not> b)))"

text \<open>
  \<^verbatim>\<open>new InvalidFieldError(path, errors, related)\<close>: an undefined argument takes the
  default of its parameter; message and code are never passed.
\<close>

definition createInvalidFieldError :: "val \<Rightarrow> val \<Rightarrow> val \<Rightarrow> val" where
  "createInvalidFieldError path errors related =
     InvalidFieldError
       (if path = Undefined then Null else path)
       (if errors = Undefined then Arr [] else errors)
       (if related = Undefined then Arr [] else related)
       (Str ''Field validation failed'')
       (Num 422)"

text \<open>\<^verbatim>\<open>_validateValue(value)\<close>\<close>

definition validateValue :: "'s env \<Rightarrow> val \<Rightarrow> ('s, val list) action" where
  "validateValue env v =
     then_do the_definition (\<lambda>d st.
       on_world_async (validator_validate env (this_document (self st)) v (def_validate d)) st)"

text \<open>\<^verbatim>\<open>v.validate()\<close>: the method of a Document; a \<^verbatim>\<open>TypeError\<close> on anything else.\<close>

fun call_validate :: "'s env \<Rightarrow> val \<Rightarrow> ('s, val) action" where
  "call_validate env (DocV a) st = on_world_async (document_validate env a) st"
| "call_validate env v st = (Throw TypeError, st)"

text \<open>
  The loop of \<^verbatim>\<open>_validateRelated\<close> over the elements that are left, \<open>items\<close> being the
  array built so far.
\<close>

fun validateRelated_loop :: "'s env \<Rightarrow> val \<Rightarrow> val list \<Rightarrow> val list \<Rightarrow> ('s, val) action" where
  "validateRelated_loop env type [] items st = (Return (Arr items), st)"
| "validateRelated_loop env type (v # vs) items st =
     (if instanceofSchema (index0 type) then
        (if truthy v then
           (case call_validate env v st of
              (Throw e, st') \<Rightarrow> (Throw e, st')
            | (Return r, st') \<Rightarrow> validateRelated_loop env type vs (items @ [r]) st')
         else validateRelated_loop env type vs (items @ [Undefined]) st)
      else
        (case validateValue env v st of
           (Throw e, st') \<Rightarrow> (Throw e, st')
         | (Return errors, st') \<Rightarrow> validateRelated_loop env type vs (items @ [Arr errors]) st'))"

text \<open>\<^verbatim>\<open>_validateRelated(value)\<close>\<close>

definition validateRelated :: "'s env \<Rightarrow> val \<Rightarrow> ('s, val) action" where
  "validateRelated env v =
     then_do the_definition (\<lambda>d st.
       let type = def_type d in
       if isPresent env v \<and> instanceofSchema type then call_validate env v st
       else if isArray v \<and> isArray type then validateRelated_loop env type (elements v) [] st
       else (Return (Arr []), st))"

text \<open>
  \<^verbatim>\<open>_isRelatedValid(related)\<close>: \<^verbatim>\<open>related.every\<close> is a \<^verbatim>\<open>TypeError\<close> unless
  \<open>related\<close> is an array; the callback recurses into arrays only.
\<close>

fun every_isRelatedValid :: "'s env \<Rightarrow> val list \<Rightarrow> bool"
  and isRelatedValid_callback :: "'s env \<Rightarrow> val \<Rightarrow> bool" where
  "every_isRelatedValid env [] = True"
| "every_isRelatedValid env (v # vs) =
     (if isRelatedValid_callback env v then every_isRelatedValid env vs else False)"
| "isRelatedValid_callback env (Arr vs) = every_isRelatedValid env vs"
| "isRelatedValid_callback env v = isAbsent env v"

definition isRelatedValid :: "'s env \<Rightarrow> val \<Rightarrow> bool outcome" where
  "isRelatedValid env related =
     (case related of Arr vs \<Rightarrow> Return (every_isRelatedValid env vs) | _ \<Rightarrow> Throw TypeError)"

text \<open>\<^verbatim>\<open>validate()\<close>: the result of the asynchronous function is \<open>Return\<close>, a rejection is \<open>Throw\<close>.\<close>

definition validate :: "'s env \<Rightarrow> ('s, val) action" where
  "validate env st0 =
     (let path = Str (name (self st0)) in
      then_do get_value (\<lambda>v.
      then_do (validateValue env v) (\<lambda>errors.
      then_do get_value (\<lambda>v'.
      then_do (validateRelated env v') (\<lambda>related st.
        if errors \<noteq> [] then (Return (createInvalidFieldError path (Arr errors) related), st)
        else (case isRelatedValid env related of
                Throw e \<Rightarrow> (Throw e, st)
              | Return ok \<Rightarrow>
                  if \<not> ok then (Return (createInvalidFieldError path (Arr errors) related), st)
                  else (Return Undefined, st)))))) st0)"

text \<open>\<^verbatim>\<open>isValid()\<close>\<close>

definition isValid :: "'s env \<Rightarrow> ('s, bool) action" where
  "isValid env = then_do (validate env) (\<lambda>r. return (isAbsent env r))"

section \<open>Notions used to state the results\<close>



text \<open>
  "Per element, in array order": run \<open>f\<close> on the elements from left to right, each in
  the state the one before it left, stop at the first that throws, and collect the
  results in the order of the elements.
\<close>

fun each_in_order :: "(val \<Rightarrow> ('s, val) action) \<Rightarrow> val list \<Rightarrow> ('s, val list) action" where
  "each_in_order f [] st = (Return [], st)"
| "each_in_order f (v # vs) st =
     (case f v st of
        (Throw e, st') \<Rightarrow> (Throw e, st')
      | (Return r, st') \<Rightarrow>
          (case each_in_order f vs st' of
             (Throw e, st'') \<Rightarrow> (Throw e, st'')
           | (Return rs, st'') \<Rightarrow> (Return (r # rs), st'')))"

text \<open>
  What an element of an array of nested Documents contributes: the result of its own
  \<^verbatim>\<open>validate()\<close> for a Document, undefined for null.
\<close>

fun nested_result :: "'s env \<Rightarrow> val \<Rightarrow> ('s, val) action" where
  "nested_result env (DocV a) = on_world_async (document_validate env a)"
| "nested_result env v = return Undefined"

text \<open>
  What an element of any other array contributes: the array of issues of validating
  the element against the rule list of the field.
\<close>

definition own_rule_result :: "'s env \<Rightarrow> val \<Rightarrow> ('s, val) action" where
  "own_rule_result env v = then_do (validateValue env v) (\<lambda>errors. return (Arr errors))"

text \<open>The elements of an array of nested Documents: each is null or a Document.\<close>

fun null_or_document :: "val \<Rightarrow> bool" where
  "null_or_document Null = True"
| "null_or_document (DocV a) = True"
| "null_or_document v = False"

fun all_null_or_document :: "val list \<Rightarrow> bool" where
  "all_null_or_document [] = True"
| "all_null_or_document (v # vs) = (if null_or_document v then all_null_or_document vs else False)"

text \<open>
  The related results proper: the entries of a related array that are not arrays
  themselves, those of nested arrays included, from left to right.
\<close>

fun leaves :: "val \<Rightarrow> val list"
  and leaves_of_all :: "val list \<Rightarrow> val list" where
  "leaves (Arr vs) = leaves_of_all vs"
| "leaves v = [v]"
| "leaves_of_all [] = []"
| "leaves_of_all (v # vs) = leaves v @ leaves_of_all vs"

fun all_absent :: "'s env \<Rightarrow> val list \<Rightarrow> bool" where
  "all_absent env [] = True"
| "all_absent env (v # vs) = (if isAbsent env v then all_absent env vs else False)"

text \<open>A sequence of assignments through the \<^verbatim>\<open>value\<close> setter, one after the other.\<close>

fun assign_all :: "'s env \<Rightarrow> val list \<Rightarrow> 's state \<Rightarrow> 's state" where
  "assign_all env [] st = st"
| "assign_all env (v # vs) st = assign_all env vs (snd (set_value env v st))"

section \<open>A sample schema and sample capabilities\<close>

text \<open>
  A concrete instance on which the results below are evaluated. The world is a log of
  the calls made on documents. The sample coercion hands a present value of a Schema
  type to the resolver registered under \<^verbatim>\<open>Schema\<close>, turns undefined into null and leaves
  every other value as it is; the sample validator reports one issue for a null or
  undefined value when the rule list is not empty.
\<close>

type_synonym sample_world = "val list"

definition sample_cast :: "val \<Rightarrow> val \<Rightarrow> sample_world options \<Rightarrow> sample_world \<Rightarrow> val \<times> sample_world" where
  "sample_cast v type options w =
     (if v = Undefined \<or> v = Null then (Null, w)
      else if instanceofSchema type then
        (case types options ''Schema'' of None \<Rightarrow> (v, w) | Some r \<Rightarrow> r v w)
      else (v, w))"

definition presence_issue :: val where
  "presence_issue =
     Obj [(''validator'', Str ''presence''), (''message'', Str ''is required''), (''code'', Num 422)]"

definition sample_env :: "sample_world env" where
  "sample_env =
     \<lparr>cast = sample_cast,
      isPresent = (\<lambda>v. \<not> (v = Undefined \<or> v = Null)),
      isAbsent = (\<lambda>v. v = Undefined \<or> v = Null),
      deepEqual = (\<lambda>w a b. a = b),
      cloneData = (\<lambda>v w. (v, w)),
      construct = (\<lambda>a b c w. (DocV (Suc (length w)), w @ [Arr [Str ''new'', a, b, c]])),
      validator_validate = (\<lambda>d v rules w.
        (Return (if rules \<noteq> Arr [] \<and> (v = Undefined \<or> v = Null) then [presence_issue] else []), w)),
      document_validate = (\<lambda>a w. (Return (Arr []), w @ [Arr [Str ''validate'', DocV a]])),
      document_commit = (\<lambda>a w. w @ [Arr [Str ''commit'', DocV a]])\<rparr>"

text \<open>
  The default of the sample field \<^verbatim>\<open>owner\<close> is a function that returns the pair of its
  receiver and its argument, so that the default shows what the function was called with.
\<close>

text \<open>
  The transforms of the test "field can be transformed through custom setter and
  getter": they append \<^verbatim>\<open>-set\<close> and \<^verbatim>\<open>-get\<close> to a string, to \<^verbatim>\<open>null\<close> and to
  \<^verbatim>\<open>undefined\<close> as a template literal does; the sample leaves other values as they are.
\<close>

fun append_str :: "string \<Rightarrow> val \<Rightarrow> val" where
  "append_str t (Str s) = Str (s @ t)"
| "append_str t Null = Str (''null'' @ t)"
| "append_str t Undefined = Str (''undefined'' @ t)"
| "append_str t v = v"

definition presence_rule :: val where
  "presence_rule = Arr [Obj [(''validator'', Str ''presence''), (''message'', Str ''is required'')]]"

definition sample_fields :: "(string \<times> fieldDefinition) list" where
  "sample_fields =
     [(''name'', \<lparr>def_type = Str ''String'', def_get = None, def_set = None,
                 def_defaultValue = Literal (Str ''Bar''), def_validate = presence_rule\<rparr>),
      (''nick'', \<lparr>def_type = Str ''String'',
                 def_get = Some (\<lambda>this. append_str ''-get''),
                 def_set = Some (\<lambda>this. append_str ''-set''),
                 def_defaultValue = Literal (Str ''100''), def_validate = Arr []\<rparr>),
      (''alias'', \<lparr>def_type = Str ''String'', def_get = None,
                  def_set = Some (\<lambda>this. append_str ''-set''),
                  def_defaultValue = Literal (Str ''a''), def_validate = Arr []\<rparr>),
      (''owner'', \<lparr>def_type = Str ''Any'', def_get = None, def_set = None,
                  def_defaultValue = Generator (\<lambda>this arg. Arr [this, arg]), def_validate = Arr []\<rparr>),
      (''book'', \<lparr>def_type = SchemaV 1, def_get = None, def_set = None,
                 def_defaultValue = Literal Undefined, def_validate = Arr []\<rparr>),
      (''books'', \<lparr>def_type = Arr [SchemaV 1], def_get = None, def_set = None,
                  def_defaultValue = Literal Undefined, def_validate = Arr []\<rparr>),
      (''tags'', \<lparr>def_type = Arr [Str ''String''], def_get = None, def_set = None,
                 def_defaultValue = Literal Undefined, def_validate = presence_rule\<rparr>)]"

definition sample_document :: "sample_world document" where
  "sample_document =
     \<lparr>doc_id = 0, schema = \<lparr>schema_fields = map_of sample_fields, typeOptions = \<lparr>types = Map.empty\<rparr>\<rparr>\<rparr>"

text \<open>The field \<open>nm\<close> of the sample document with the given stored and initial value, in an empty world.\<close>

definition sample_state :: "string \<Rightarrow> val \<Rightarrow> val \<Rightarrow> sample_world state" where
  "sample_state nm v i =
     \<lparr>self = \<lparr>document = sample_document, name = nm, stored_value = v, stored_initialValue = i\<rparr>,
      world = []\<rparr>"

section \<open>Basic facts about the methods\<close>

lemma get_value_state: "snd (get_value st) = st"
  by (simp add: get_value_def then_do_def the_definition_def split: option.splits)

lemma set_value_frame:
  "stored_initialValue (self (snd (set_value env v st))) = stored_initialValue (self st)
   \<and> document (self (snd (set_value env v st))) = document (self st)
   \<and> name (self (snd (set_value env v st))) = name (self st)"
  by (simp add: set_value_def then_do_def the_definition_def Field_cast_def on_world_def Let_def
      split: option.splits prod.splits outcome.splits)

lemma defaultValue_self: "self (snd (defaultValue env st)) = self st"
  by (simp add: defaultValue_def then_do_def the_definition_def Field_cast_def on_world_def Let_def
      split: option.splits prod.splits outcome.splits)

text \<open>What both parts of a sequence leave alone, the sequence leaves alone.\<close>

lemma then_do_preserves:
  assumes m: "\<And>s. f (snd (m s)) = f s"
    and k: "\<And>x s. f (snd (k x s)) = f s"
  shows "f (snd (then_do m k st)) = f st"
proof (cases "m st")
  case (Pair r st')
  have st': "f st' = f st"
    using m [of st] Pair by simp
  show ?thesis
  proof (cases r)
    case (Return x)
    then have "then_do m k st = k x st'"
      using Pair by (simp add: then_do_def)
    then show ?thesis
      using k [of x st'] st' by simp
  next
    case (Throw e)
    then have "then_do m k st = (Throw e, st')"
      using Pair by (simp add: then_do_def)
    then show ?thesis
      using st' by simp
  qed
qed

lemma set_value_initial:
  "stored_initialValue (self (snd (set_value env v st))) = stored_initialValue (self st)"
  using set_value_frame [of env v st] by simp

lemma defaultValue_initial:
  "stored_initialValue (self (snd (defaultValue env st))) = stored_initialValue (self st)"
  by (simp add: defaultValue_self)

lemma reset_frame: "stored_initialValue (self (snd (reset env st))) = stored_initialValue (self st)"
  unfolding reset_def
proof (rule then_do_preserves [where f = "\<lambda>s. stored_initialValue (self s)"])
  fix s :: "'a state"
  show "stored_initialValue (self (snd (defaultValue env s))) = stored_initialValue (self s)"
    by (rule defaultValue_initial)
next
  fix x and s :: "'a state"
  show "stored_initialValue (self (snd (then_do (set_value env x) (\<lambda>_ st. (Return (self st), st)) s)))
        = stored_initialValue (self s)"
    by (rule then_do_preserves [where f = "\<lambda>s. stored_initialValue (self s)"])
       (simp_all add: set_value_initial)
qed

lemma clear_frame: "stored_initialValue (self (snd (clear env st))) = stored_initialValue (self st)"
  unfolding clear_def
  by (rule then_do_preserves [where f = "\<lambda>s. stored_initialValue (self s)"])
     (simp_all add: set_value_initial)

lemma rollback_frame:
  "stored_initialValue (self (snd (rollback env st))) = stored_initialValue (self st)"
  unfolding rollback_def
proof (rule then_do_preserves [where f = "\<lambda>s. stored_initialValue (self s)"])
  fix s :: "'a state"
  show "stored_initialValue (self (snd (initialValue s))) = stored_initialValue (self s)"
    by (simp add: initialValue_def)
next
  fix x and s :: "'a state"
  show "stored_initialValue (self (snd (then_do (set_value env x) (\<lambda>_ st. (Return (self st), st)) s)))
        = stored_initialValue (self s)"
    by (rule then_do_preserves [where f = "\<lambda>s. stored_initialValue (self s)"])
       (simp_all add: set_value_initial)
qed

lemma equals_state: "snd (equals env data st) = st"
  by (simp add: equals_def get_value_def then_do_def the_definition_def
      split: option.splits prod.splits outcome.splits)

lemma isChanged_state: "snd (isChanged env st) = st"
  unfolding isChanged_def
proof (rule then_do_preserves [where f = "\<lambda>s. s"])
  fix s :: "'a state"
  show "snd (initialValue s) = s"
    by (simp add: initialValue_def)
next
  fix x and s :: "'a state"
  show "snd (then_do (equals env x) (\<lambda>b. return (\<not> b)) s) = s"
    by (rule then_do_preserves [where f = "\<lambda>s. s"])
       (simp_all add: equals_state return_def)
qed

lemma defaultValue_returns:
  assumes "schema_fields (schema (document (self st))) (name (self st)) = Some d"
  shows "\<exists>v w. defaultValue env st = (Return v, st\<lparr>world := w\<rparr>)"
proof -
  let ?dv = "case def_defaultValue d of
               Generator g \<Rightarrow> g Undefined (get_prop (self st) ''_document'')
             | Literal l \<Rightarrow> l"
  obtain r w where c: "cast env ?dv (def_type d) (cast_options env (self st) (def_type d)) (world st) = (r, w)"
    by (cases "cast env ?dv (def_type d) (cast_options env (self st) (def_type d)) (world st)") simp
  have "defaultValue env st = (Return (transform (def_set d) (self st) r), st\<lparr>world := w\<rparr>)"
    using assms c
    by (simp add: defaultValue_def then_do_def the_definition_def Field_cast_def on_world_def Let_def)
  then show ?thesis by blast
qed

lemma isChanged_eval:
  assumes "schema_fields (schema (document (self st))) (name (self st)) = Some d"
  shows "isChanged env st =
     (Return (\<not> deepEqual env (world st) (transform (def_get d) (self st) (stored_value (self st)))
                 (stored_initialValue (self st))), st)"
  using assms
  by (simp add: isChanged_def initialValue_def equals_def get_value_def return_def then_do_def
      the_definition_def)

text \<open>Validation does not write to the field.\<close>

lemma the_definition_self: "self (snd (the_definition st)) = self st"
  by (simp add: the_definition_def split: option.splits)

lemma get_value_self: "self (snd (get_value st)) = self st"
  by (simp add: get_value_state)

lemma on_world_async_self: "self (snd (on_world_async f st)) = self st"
  by (simp add: on_world_async_def split: prod.splits)

lemma validateValue_self: "self (snd (validateValue env v st)) = self st"
  unfolding validateValue_def
  by (rule then_do_preserves [where f = self]) (simp_all add: the_definition_self on_world_async_self)

lemma call_validate_self: "self (snd (call_validate env v st)) = self st"
  by (cases v) (simp_all add: on_world_async_self)

lemma validateRelated_loop_self:
  "self (snd (validateRelated_loop env type vs items st)) = self st"
proof (induction vs arbitrary: items st)
  case Nil
  show ?case by simp
next
  case (Cons v vs)
  show ?case
  proof (cases "instanceofSchema (index0 type)")
    case True
    show ?thesis
    proof (cases "truthy v")
      case t: True
      obtain r st' where c: "call_validate env v st = (r, st')"
        by (cases "call_validate env v st") simp
      then have s: "self st' = self st"
        using call_validate_self [of env v st] by simp
      show ?thesis
        using True t c s Cons.IH by (cases r) simp_all
    next
      case False
      then show ?thesis using True Cons.IH by simp
    qed
  next
    case False
    obtain r st' where c: "validateValue env v st = (r, st')"
      by (cases "validateValue env v st") simp
    then have s: "self st' = self st"
      using validateValue_self [of env v st] by simp
    show ?thesis
      using False c s Cons.IH by (cases r) simp_all
  qed
qed

lemma validateRelated_self: "self (snd (validateRelated env v st)) = self st"
  unfolding validateRelated_def
  by (rule then_do_preserves [where f = self])
     (simp_all add: the_definition_self call_validate_self validateRelated_loop_self Let_def)

lemma validate_self: "self (snd (validate env st)) = self st"
  unfolding validate_def Let_def
  apply (rule then_do_preserves [where f = self])
   apply (rule get_value_self)
  apply (rule then_do_preserves [where f = self])
   apply (rule validateValue_self)
  apply (rule then_do_preserves [where f = self])
   apply (rule get_value_self)
  apply (rule then_do_preserves [where f = self])
   apply (rule validateRelated_self)
  apply (simp split: outcome.splits)
  done


lemma get_value_eval:
  assumes "schema_fields (schema (document (self st))) (name (self st)) = Some d"
  shows "get_value st = (Return (transform (def_get d) (self st) (stored_value (self st))), st)"
  using assms by (simp add: get_value_def then_do_def the_definition_def)


text \<open>The loop of \<^verbatim>\<open>_validateRelated\<close>, which appends to \<open>items\<close>, visits the elements in order.\<close>

lemma validateRelated_loop_nested:
  assumes "instanceofSchema (index0 type)" and "all_null_or_document vs"
  shows "validateRelated_loop env type vs items st
     = then_do (each_in_order (nested_result env) vs) (\<lambda>rs. return (Arr (items @ rs))) st"
  using assms(2)
proof (induction vs arbitrary: items st)
  case Nil
  show ?case by (simp add: then_do_def return_def)
next
  case (Cons v vs)
  from Cons.prems have nv: "null_or_document v" and rest: "all_null_or_document vs"
    by (simp_all split: if_splits)
  note IH = Cons.IH [OF rest]
  show ?case
  proof (cases v)
    case Null
    then show ?thesis
      using assms(1) IH [of "items @ [Undefined]" st]
      by (simp add: then_do_def return_def split: prod.splits outcome.splits)
  next
    case (DocV a)
    obtain r st' where c: "on_world_async (document_validate env a) st = (r, st')"
      by (cases "on_world_async (document_validate env a) st") simp
    show ?thesis
    proof (cases r)
      case (Return x)
      then show ?thesis
        using assms(1) DocV c IH [of "items @ [x]" st']
        by (simp add: then_do_def return_def split: prod.splits outcome.splits)
    next
      case (Throw e)
      then show ?thesis
        using assms(1) DocV c by (simp add: then_do_def)
    qed
  qed (use nv in simp_all)
qed

lemma validateRelated_loop_plain:
  assumes "\<not> instanceofSchema (index0 type)"
  shows "validateRelated_loop env type vs items st
     = then_do (each_in_order (own_rule_result env) vs) (\<lambda>rs. return (Arr (items @ rs))) st"
proof (induction vs arbitrary: items st)
  case Nil
  show ?case by (simp add: then_do_def return_def)
next
  case (Cons v vs)
  obtain r st' where c: "validateValue env v st = (r, st')"
    by (cases "validateValue env v st") simp
  show ?case
  proof (cases r)
    case (Return errors)
    then have o: "own_rule_result env v st = (Return (Arr errors), st')"
      using c by (simp add: own_rule_result_def then_do_def return_def)
    show ?thesis
      using assms Return c o Cons.IH [of "items @ [Arr errors]" st']
      by (simp add: then_do_def return_def split: prod.splits outcome.splits)
  next
    case (Throw e)
    then have o: "own_rule_result env v st = (Throw e, st')"
      using c by (simp add: own_rule_result_def then_do_def)
    show ?thesis
      using assms Throw c o by (simp add: then_do_def)
  qed
qed

text \<open>\<^verbatim>\<open>_isRelatedValid\<close> holds when every entry that is not an array is absent.\<close>

lemma all_absent_append:
  "all_absent env (xs @ ys) = (all_absent env xs \<and> all_absent env ys)"
  by (induction xs) simp_all

lemma isRelatedValid_leaves:
  "every_isRelatedValid env vs = all_absent env (leaves_of_all vs)"
  "isRelatedValid_callback env v = all_absent env (leaves v)"
  by (induction env vs and env v rule: every_isRelatedValid_isRelatedValid_callback.induct)
     (simp_all add: all_absent_append)

lemma validateValue_eval:
  assumes "schema_fields (schema (document (self st))) (name (self st)) = Some d"
    and "validator_validate env (this_document (self st)) v (def_validate d) (world st) = (r, w)"
  shows "validateValue env v st = (r, st\<lparr>world := w\<rparr>)"
  using assms by (simp add: validateValue_def then_do_def the_definition_def on_world_async_def)

text \<open>The setter, a sequence of assignments and \<^verbatim>\<open>commit()\<close>, evaluated and framed.\<close>

lemma if_then_else_True: "(if c then g else True) = (c \<longrightarrow> g)"
  by simp

lemma schemaResolver_document:
  "document f' = document f \<Longrightarrow> schemaResolver env f' type = schemaResolver env f type"
  by (rule ext) (simp add: schemaResolver_def this_document_def)

lemma cast_options_document:
  "document f' = document f \<Longrightarrow> cast_options env f' type = cast_options env f type"
  by (simp add: cast_options_def Let_def schemaResolver_document [of f' f])

lemma transform_document:
  "document f' = document f \<Longrightarrow> transform g f' v = transform g f v"
  by (simp add: transform_def this_document_def split: option.splits)

lemma set_value_eval:
  assumes "schema_fields (schema (document (self st))) (name (self st)) = Some d"
    and "cast env v (def_type d) (cast_options env (self st) (def_type d)) (world st) = (r, w)"
  shows "set_value env v st
     = (Return (), st\<lparr>world := w, self := (self st)\<lparr>stored_value := transform (def_set d) (self st) r\<rparr>\<rparr>)"
  using assms
  by (simp add: set_value_def then_do_def the_definition_def Field_cast_def on_world_def)

lemma assign_all_frame:
  "stored_initialValue (self (assign_all env vs st)) = stored_initialValue (self st)
   \<and> document (self (assign_all env vs st)) = document (self st)
   \<and> name (self (assign_all env vs st)) = name (self st)"
proof (induction vs arbitrary: st)
  case Nil
  show ?case by simp
next
  case (Cons v vs)
  show ?case
    using Cons.IH [of "snd (set_value env v st)"] set_value_frame [of env v st] by simp
qed

lemma call_commit_self: "self (snd (call_commit env v st)) = self st"
  by (cases v) simp_all

lemma commitRelated_self:
  "self (snd (commitRelated env data st)) = self st"
  "self (snd (commitRelated_forEach env ds st)) = self st"
proof (induction env data st and env ds st rule: commitRelated_commitRelated_forEach.induct)
  case (1 env data st)
  then show ?case by (simp add: call_commit_self)
next
  case (2 env st)
  show ?case by simp
next
  case (3 env d ds st)
  obtain r st' where c: "commitRelated env d st = (r, st')"
    by (cases "commitRelated env d st") simp
  then have s: "self st' = self st"
    using 3(1) by simp
  show ?case
  proof (cases r)
    case (Return u)
    then show ?thesis using c s 3(2) [OF c [symmetric]] by simp
  next
    case (Throw e)
    then show ?thesis using c s by simp
  qed
qed

lemma commit_frame:
  "document (self (snd (commit env st))) = document (self st)
   \<and> name (self (snd (commit env st))) = name (self st)
   \<and> stored_value (self (snd (commit env st))) = stored_value (self st)"
proof -
  let ?f = "\<lambda>s. (document (self s), name (self s), stored_value (self s))"
  have "?f (snd (commit env st)) = ?f st"
    unfolding commit_def
    apply (rule then_do_preserves [where f = ?f])
     apply (simp add: get_value_state)
    apply (rule then_do_preserves [where f = ?f])
     apply (simp add: commitRelated_self del: commitRelated.simps)
    apply (rule then_do_preserves [where f = ?f])
     apply (simp add: get_value_state)
    apply (rule then_do_preserves [where f = ?f])
     apply (simp add: on_world_def split: prod.splits)
    apply (simp add: Let_def)
    done
  then show ?thesis by simp
qed

text \<open>Unfolding the methods and the sample instance, for evaluation on concrete input.\<close>

lemmas method_defs =
  then_do_def return_def on_world_def on_world_async_def the_definition_def transform_def
  this_document_def get_prop_def get_value_def schemaResolver_def cast_options_def Field_cast_def set_value_def
  defaultValue_def uninitialised_def Field_constructor_def initialValue_def reset_def clear_def
  rollback_def commit_def equals_def isChanged_def createInvalidFieldError_def validateValue_def
  validateRelated_def isRelatedValid_def validate_def isValid_def Let_def

lemmas sample_defs =
  sample_cast_def presence_issue_def sample_env_def presence_rule_def sample_fields_def
  sample_document_def sample_state_def

section \<open>Claim C1: the outcome of validate\<close>

text \<open>
  C1, as stated: with an own error, or a related result that is not absent,
  \<^verbatim>\<open>validate()\<close> raises an invalid field error. It does not: on the sample field
  \<^verbatim>\<open>name\<close> holding null the validator reports an issue, and the promise resolves to the
  \<^verbatim>\<open>InvalidFieldError\<close>; it is not rejected with it.
\<close>

theorem validate_raises_counterexample:
  "fst (validateValue sample_env Null (sample_state ''name'' Null (Str ''Bar''))) = Return [presence_issue]
   \<and> fst (validate sample_env (sample_state ''name'' Null (Str ''Bar'')))
       = Return (InvalidFieldError (Str ''name'') (Arr [presence_issue]) (Arr [])
                   (Str ''Field validation failed'') (Num 422))
   \<and> fst (validate sample_env (sample_state ''name'' Null (Str ''Bar'')))
       \<noteq> Throw (InvalidFieldError (Str ''name'') (Arr [presence_issue]) (Arr [])
                   (Str ''Field validation failed'') (Num 422))"
  by (simp add: method_defs sample_defs)

text \<open>
  C1, amended. For a field that its schema defines, when the validator resolves to the
  own issues and the related validation resolves to an array: \<^verbatim>\<open>validate()\<close> resolves,
  to an \<^verbatim>\<open>InvalidFieldError\<close> value carrying the name of the field as path, the own
  issues and the related array when there is an own issue or some entry of the related
  array (nested arrays opened) is not absent, and to undefined otherwise.
\<close>

theorem validate_resolves_to_error_or_undefined:
  assumes d: "schema_fields (schema (document (self st))) (name (self st)) = Some d"
    and v: "v = transform (def_get d) (self st) (stored_value (self st))"
    and own: "validator_validate env (this_document (self st)) v (def_validate d) (world st)
                = (Return errors, w)"
    and rel: "validateRelated env v (st\<lparr>world := w\<rparr>) = (Return (Arr related), st')"
  shows "validate env st =
     (Return (if errors \<noteq> [] \<or> \<not> all_absent env (leaves_of_all related)
              then InvalidFieldError (Str (name (self st))) (Arr errors) (Arr related)
                     (Str ''Field validation failed'') (Num 422)
              else Undefined), st')"
proof -
  let ?s1 = "st\<lparr>world := w\<rparr>"
  have g: "get_value st = (Return v, st)"
    using get_value_eval [OF d] v by simp
  have o: "validateValue env v st = (Return errors, ?s1)"
    by (rule validateValue_eval [OF d own])
  have d1: "schema_fields (schema (document (self ?s1))) (name (self ?s1)) = Some d"
    using d by simp
  have g1: "get_value ?s1 = (Return v, ?s1)"
    using get_value_eval [OF d1] v by (simp add: transform_def this_document_def)
  have "validate env st =
     (if errors \<noteq> [] then (Return (createInvalidFieldError (Str (name (self st))) (Arr errors) (Arr related)), st')
      else (case isRelatedValid env (Arr related) of
              Throw e \<Rightarrow> (Throw e, st')
            | Return ok \<Rightarrow>
                if \<not> ok then (Return (createInvalidFieldError (Str (name (self st))) (Arr errors) (Arr related)), st')
                else (Return Undefined, st')))"
    by (simp add: validate_def Let_def then_do_def g o g1 rel)
  then show ?thesis
    by (simp add: isRelatedValid_def isRelatedValid_leaves createInvalidFieldError_def)
qed

theorem validate_resolves_to_error_or_undefined_witness:
  "validate sample_env (sample_state ''tags'' (Arr [Null, Str ''a'']) Null)
     = (Return (InvalidFieldError (Str ''tags'') (Arr []) (Arr [Arr [presence_issue], Arr []])
                  (Str ''Field validation failed'') (Num 422)),
        sample_state ''tags'' (Arr [Null, Str ''a'']) Null)
   \<and> validate sample_env (sample_state ''tags'' (Arr [Str ''b'', Str ''a'']) Null)
     = (Return Undefined, sample_state ''tags'' (Arr [Str ''b'', Str ''a'']) Null)"
proof -
  let ?bad = "sample_state ''tags'' (Arr [Null, Str ''a'']) Null"
  let ?good = "sample_state ''tags'' (Arr [Str ''b'', Str ''a'']) Null"
  let ?d = "\<lparr>def_type = Arr [Str ''String''], def_get = None, def_set = None,
             def_defaultValue = Literal Undefined, def_validate = presence_rule\<rparr>"
  have d1: "schema_fields (schema (document (self ?bad))) (name (self ?bad)) = Some ?d"
    by (simp add: sample_defs)
  have v1: "Arr [Null, Str ''a''] = transform (def_get ?d) (self ?bad) (stored_value (self ?bad))"
    by (simp add: transform_def sample_state_def)
  have own1: "validator_validate sample_env (this_document (self ?bad)) (Arr [Null, Str ''a''])
                (def_validate ?d) (world ?bad) = (Return [], [])"
    by (simp add: sample_defs)
  have rel1: "validateRelated sample_env (Arr [Null, Str ''a'']) (?bad\<lparr>world := []\<rparr>)
                = (Return (Arr [Arr [presence_issue], Arr []]), ?bad)"
    by (simp add: method_defs sample_defs)
  have d2: "schema_fields (schema (document (self ?good))) (name (self ?good)) = Some ?d"
    by (simp add: sample_defs)
  have v2: "Arr [Str ''b'', Str ''a''] = transform (def_get ?d) (self ?good) (stored_value (self ?good))"
    by (simp add: transform_def sample_state_def)
  have own2: "validator_validate sample_env (this_document (self ?good)) (Arr [Str ''b'', Str ''a''])
                (def_validate ?d) (world ?good) = (Return [], [])"
    by (simp add: sample_defs)
  have rel2: "validateRelated sample_env (Arr [Str ''b'', Str ''a'']) (?good\<lparr>world := []\<rparr>)
                = (Return (Arr [Arr [], Arr []]), ?good)"
    by (simp add: method_defs sample_defs)
  show ?thesis
    using validate_resolves_to_error_or_undefined [OF d1 v1 own1 rel1]
      validate_resolves_to_error_or_undefined [OF d2 v2 own2 rel2]
    by (simp add: sample_defs)
qed

section \<open>Claim C2: the constructor call of the Schema resolver\<close>

text \<open>
  C2. The resolver that \<^verbatim>\<open>_cast\<close> registers under \<^verbatim>\<open>Schema\<close> calls the constructor of
  the owning document with the Schema first, the value to coerce second and the owning
  document third, for a Schema type and for an array of a Schema alike. The sample
  constructor logs its arguments in the order received: assigning \<^verbatim>\<open>{title: 100}\<close> to
  the sample field \<^verbatim>\<open>book\<close> logs the Schema before the raw data, where the documented
  constructor \<^verbatim>\<open>new Document(rawData, schema, parent)\<close> takes the raw data first.
\<close>

theorem schemaResolver_passes_schema_before_data:
  "schemaResolver env this (SchemaV s) v = construct env (SchemaV s) v (this_document this)
   \<and> schemaResolver env this (Arr [SchemaV s]) v = construct env (SchemaV s) v (this_document this)
   \<and> types (cast_options env this type) ''Schema'' = Some (schemaResolver env this type)
   \<and> set_value sample_env (Obj [(''title'', Num 100)]) (sample_state ''book'' Null Null)
     = (Return (),
        (sample_state ''book'' (DocV 1) Null)
          \<lparr>world := [Arr [Str ''new'', SchemaV 1, Obj [(''title'', Num 100)], DocV 0]]\<rparr>)
   \<and> [Arr [Str ''new'', SchemaV 1, Obj [(''title'', Num 100)], DocV 0]]
     \<noteq> [Arr [Str ''new'', Obj [(''title'', Num 100)], SchemaV 1, DocV 0]]"
  by (simp add: method_defs sample_defs)

section \<open>Claim C3: the argument of a function valued default\<close>

text \<open>
  C3. The getter \<^verbatim>\<open>defaultValue\<close> calls a function valued default with
  \<^verbatim>\<open>this._document\<close>. The field has no property of that name (its document is
  \<^verbatim>\<open>$document\<close>), so the function receives undefined, and no receiver: the default of
  the sample field \<^verbatim>\<open>owner\<close> is the pair of undefined and undefined, not a pair that
  holds the owning document.
\<close>

theorem defaultValue_calls_generator_with_undefined:
  "get_prop (self (sample_state ''owner'' Null Null)) ''_document'' = Undefined
   \<and> get_prop (self (sample_state ''owner'' Null Null)) ''$document'' = DocV 0
   \<and> defaultValue sample_env (sample_state ''owner'' Null Null)
     = (Return (Arr [Undefined, Undefined]), sample_state ''owner'' Null Null)
   \<and> fst (defaultValue sample_env (sample_state ''owner'' Null Null))
     \<noteq> Return (Arr [Undefined, this_document (self (sample_state ''owner'' Null Null))])"
  by (simp add: method_defs sample_defs)

section \<open>Claim C4: rollback\<close>

text \<open>
  C4, as stated: after \<^verbatim>\<open>commit()\<close> and any assignments, \<^verbatim>\<open>rollback()\<close> yields a value
  deep-equal to the committed snapshot, also under a \<^verbatim>\<open>set\<close> transform. It does not: the
  sample field \<^verbatim>\<open>alias\<close> has a \<^verbatim>\<open>set\<close> transform that appends \<^verbatim>\<open>-set\<close>; committed at
  \<^verbatim>\<open>a-set\<close>, assigned \<^verbatim>\<open>b\<close> and rolled back, it holds \<^verbatim>\<open>a-set-set\<close>, which is not
  equal to the snapshot.
\<close>

theorem rollback_restores_snapshot_counterexample:
  "commit sample_env (sample_state ''alias'' (Str ''a-set'') (Str ''a-set''))
     = (Return (self (sample_state ''alias'' (Str ''a-set'') (Str ''a-set''))),
        sample_state ''alias'' (Str ''a-set'') (Str ''a-set''))
   \<and> set_value sample_env (Str ''b'') (sample_state ''alias'' (Str ''a-set'') (Str ''a-set''))
     = (Return (), sample_state ''alias'' (Str ''b-set'') (Str ''a-set''))
   \<and> rollback sample_env (sample_state ''alias'' (Str ''b-set'') (Str ''a-set''))
     = (Return (self (sample_state ''alias'' (Str ''a-set-set'') (Str ''a-set''))),
        sample_state ''alias'' (Str ''a-set-set'') (Str ''a-set''))
   \<and> get_value (sample_state ''alias'' (Str ''a-set-set'') (Str ''a-set''))
     = (Return (Str ''a-set-set''), sample_state ''alias'' (Str ''a-set-set'') (Str ''a-set''))
   \<and> equals sample_env (Str ''a-set'') (sample_state ''alias'' (Str ''a-set-set'') (Str ''a-set''))
     = (Return False, sample_state ''alias'' (Str ''a-set-set'') (Str ''a-set''))"
  by (simp add: method_defs sample_defs)

text \<open>
  C4, amended. \<^verbatim>\<open>rollback()\<close> assigns the value captured by the most recent
  \<^verbatim>\<open>commit()\<close> through the \<^verbatim>\<open>value\<close> setter: after \<^verbatim>\<open>commit()\<close> and any sequence of
  assignments, the initial value is still the committed snapshot, and after
  \<^verbatim>\<open>rollback()\<close> the stored value is the snapshot coerced again and passed through the
  \<^verbatim>\<open>set\<close> transform. When the definition has no \<^verbatim>\<open>set\<close> and no \<^verbatim>\<open>get\<close> transform and
  the coercion leaves the snapshot as it is, the value of the field is the snapshot.
\<close>

theorem rollback_assigns_snapshot_through_setter:
  assumes d: "schema_fields (schema (document (self st))) (name (self st)) = Some d"
    and c: "commit env st = (Return f, committed)"
    and a: "assigned = assign_all env vs committed"
    and k: "cast env (stored_initialValue (self committed)) (def_type d)
              (cast_options env (self st) (def_type d)) (world assigned) = (r, w)"
  shows "\<exists>st'. rollback env assigned = (Return (self st'), st')
          \<and> stored_initialValue (self st') = stored_initialValue (self committed)
          \<and> stored_value (self st') = transform (def_set d) (self st) r
          \<and> (if def_set d = None \<and> def_get d = None \<and> r = stored_initialValue (self committed)
              then get_value st' = (Return (stored_initialValue (self committed)), st') else True)"
proof -
  have cf: "document (self committed) = document (self st)" "name (self committed) = name (self st)"
    using commit_frame [of env st] c by simp_all
  have af: "stored_initialValue (self assigned) = stored_initialValue (self committed)"
    "document (self assigned) = document (self st)" "name (self assigned) = name (self st)"
    using assign_all_frame [of env vs committed] a cf by simp_all
  have da: "schema_fields (schema (document (self assigned))) (name (self assigned)) = Some d"
    using d af by simp
  have ka: "cast env (stored_initialValue (self assigned)) (def_type d)
              (cast_options env (self assigned) (def_type d)) (world assigned) = (r, w)"
    using k af cast_options_document [of "self assigned" "self st" env "def_type d"] by simp
  let ?made = "assigned\<lparr>world := w,
      self := (self assigned)\<lparr>stored_value := transform (def_set d) (self assigned) r\<rparr>\<rparr>"
  have sv: "set_value env (stored_initialValue (self assigned)) assigned = (Return (), ?made)"
    by (rule set_value_eval [OF da ka])
  have rb: "rollback env assigned = (Return (self ?made), ?made)"
    by (simp add: rollback_def initialValue_def then_do_def sv)
  have tr: "transform (def_set d) (self assigned) r = transform (def_set d) (self st) r"
    by (rule transform_document) (simp add: af)
  have dm: "schema_fields (schema (document (self ?made))) (name (self ?made)) = Some d"
    using da by simp
  have gv: "get_value ?made = (Return (transform (def_get d) (self ?made) (stored_value (self ?made))), ?made)"
    by (rule get_value_eval [OF dm])
  have "stored_initialValue (self ?made) = stored_initialValue (self committed)"
    using af by simp
  moreover have "stored_value (self ?made) = transform (def_set d) (self st) r"
    using tr by simp
  moreover have "if def_set d = None \<and> def_get d = None \<and> r = stored_initialValue (self committed)
      then get_value ?made = (Return (stored_initialValue (self committed)), ?made) else True"
  proof -
    have "def_set d = None \<and> def_get d = None \<and> r = stored_initialValue (self committed)
          \<longrightarrow> get_value ?made = (Return (stored_initialValue (self committed)), ?made)"
    proof (rule impI)
      assume n: "def_set d = None \<and> def_get d = None \<and> r = stored_initialValue (self committed)"
      then have "transform (def_get d) (self ?made) (stored_value (self ?made))
                 = stored_initialValue (self committed)"
        by (simp add: transform_def)
      then show "get_value ?made = (Return (stored_initialValue (self committed)), ?made)"
        using gv by simp
    qed
    then show ?thesis by (simp only: if_then_else_True)
  qed
  ultimately show ?thesis using rb by blast
qed

theorem rollback_assigns_snapshot_through_setter_witness:
  "rollback sample_env
     (assign_all sample_env [Str ''b'', Str ''c'']
        (snd (commit sample_env (sample_state ''name'' (Str ''Foo'') (Str ''Bar'')))))
     = (Return (self (sample_state ''name'' (Str ''Foo'') (Str ''Foo''))),
        sample_state ''name'' (Str ''Foo'') (Str ''Foo''))
   \<and> get_value (sample_state ''name'' (Str ''Foo'') (Str ''Foo''))
     = (Return (Str ''Foo''), sample_state ''name'' (Str ''Foo'') (Str ''Foo''))"
proof -
  let ?before = "sample_state ''name'' (Str ''Foo'') (Str ''Bar'')"
  let ?committed = "sample_state ''name'' (Str ''Foo'') (Str ''Foo'')"
  let ?assigned = "sample_state ''name'' (Str ''c'') (Str ''Foo'')"
  let ?d = "\<lparr>def_type = Str ''String'', def_get = None, def_set = None,
             def_defaultValue = Literal (Str ''Bar''), def_validate = presence_rule\<rparr>"
  have d: "schema_fields (schema (document (self ?before))) (name (self ?before)) = Some ?d"
    by (simp add: sample_defs)
  have c: "commit sample_env ?before = (Return (self ?committed), ?committed)"
    by (simp add: method_defs sample_defs)
  have a: "?assigned = assign_all sample_env [Str ''b'', Str ''c''] ?committed"
    by (simp add: method_defs sample_defs)
  have k: "cast sample_env (stored_initialValue (self ?committed)) (def_type ?d)
             (cast_options sample_env (self ?before) (def_type ?d)) (world ?assigned) = (Str ''Foo'', [])"
    by (simp add: sample_defs)
  have r: "rollback sample_env ?assigned = (Return (self ?committed), ?committed)"
    by (simp add: method_defs sample_defs)
  from rollback_assigns_snapshot_through_setter [OF d c a k] r
  have "if def_set ?d = None \<and> def_get ?d = None \<and> Str ''Foo'' = stored_initialValue (self ?committed)
        then get_value ?committed = (Return (stored_initialValue (self ?committed)), ?committed)
        else True"
    by auto
  then have "get_value ?committed = (Return (Str ''Foo''), ?committed)"
    by (simp add: sample_state_def)
  with r c a show ?thesis by simp
qed

section \<open>Claim C5: commit\<close>



section \<open>Claim C6: the related results of a validation\<close>

text \<open>
  C6. For a field that its schema defines, \<^verbatim>\<open>_validateRelated\<close> gives:
  \<^item> for a present Document under a Schema type, the result of that Document's \<^verbatim>\<open>validate()\<close>;
  \<^item> for an array under an array type whose element type is a Schema, the elements being
    null or Documents: per element in array order, the Document's own \<^verbatim>\<open>validate()\<close>
    result, and undefined for null;
  \<^item> for an array under an array type whose element type is not a Schema: per element in
    array order, the issues of validating the element against the rule list of the field;
  \<^item> in every other case (the first condition of the code and the second both false) the
    empty array.
\<close>

theorem validateRelated_by_cases:
  assumes d: "schema_fields (schema (document (self st))) (name (self st)) = Some d"
  shows "(if instanceofSchema (def_type d) \<and> isPresent env (DocV a)
          then validateRelated env (DocV a) st = on_world_async (document_validate env a) st
          else True)
       \<and> (if isArray (def_type d) \<and> instanceofSchema (index0 (def_type d)) \<and> all_null_or_document vs
          then validateRelated env (Arr vs) st
               = then_do (each_in_order (nested_result env) vs) (\<lambda>rs. return (Arr rs)) st
          else True)
       \<and> (if isArray (def_type d) \<and> \<not> instanceofSchema (index0 (def_type d))
          then validateRelated env (Arr vs) st
               = then_do (each_in_order (own_rule_result env) vs) (\<lambda>rs. return (Arr rs)) st
          else True)
       \<and> (if \<not> (isPresent env v \<and> instanceofSchema (def_type d)) \<and> \<not> (isArray v \<and> isArray (def_type d))
          then validateRelated env v st = (Return (Arr []), st)
          else True)"
proof -
  have unfold: "\<And>x. validateRelated env x st =
       (if isPresent env x \<and> instanceofSchema (def_type d) then call_validate env x st
        else if isArray x \<and> isArray (def_type d)
          then validateRelated_loop env (def_type d) (elements x) [] st
        else (Return (Arr []), st))"
    using d by (simp add: validateRelated_def then_do_def the_definition_def Let_def)
  have not_both: "isArray (def_type d) \<Longrightarrow> \<not> instanceofSchema (def_type d)"
    by (cases "def_type d") simp_all
  have c1: "instanceofSchema (def_type d) \<and> isPresent env (DocV a) \<Longrightarrow>
      validateRelated env (DocV a) st = on_world_async (document_validate env a) st"
    by (simp add: unfold)
  have c2: "isArray (def_type d) \<and> instanceofSchema (index0 (def_type d)) \<and> all_null_or_document vs \<Longrightarrow>
      validateRelated env (Arr vs) st
        = then_do (each_in_order (nested_result env) vs) (\<lambda>rs. return (Arr rs)) st"
    using validateRelated_loop_nested [of "def_type d" vs env "[]" st] not_both
    by (simp add: unfold)
  have c3: "isArray (def_type d) \<and> \<not> instanceofSchema (index0 (def_type d)) \<Longrightarrow>
      validateRelated env (Arr vs) st
        = then_do (each_in_order (own_rule_result env) vs) (\<lambda>rs. return (Arr rs)) st"
    using validateRelated_loop_plain [of "def_type d" env vs "[]" st] not_both
    by (simp add: unfold)
  have c4: "\<not> (isPresent env v \<and> instanceofSchema (def_type d)) \<and> \<not> (isArray v \<and> isArray (def_type d)) \<Longrightarrow>
      validateRelated env v st = (Return (Arr []), st)"
    using unfold [of v] by auto
  show ?thesis
    using c1 c2 c3 c4 by simp
qed

theorem validateRelated_by_cases_witness:
  "validateRelated sample_env (Arr [Null, DocV 3, DocV 4]) (sample_state ''books'' (Arr [Null, DocV 3, DocV 4]) Null)
     = (Return (Arr [Undefined, Arr [], Arr []]),
        (sample_state ''books'' (Arr [Null, DocV 3, DocV 4]) Null)
          \<lparr>world := [Arr [Str ''validate'', DocV 3], Arr [Str ''validate'', DocV 4]]\<rparr>)
   \<and> validateRelated sample_env (Arr [Null, Str ''a'']) (sample_state ''tags'' (Arr [Null, Str ''a'']) Null)
     = (Return (Arr [Arr [presence_issue], Arr []]), sample_state ''tags'' (Arr [Null, Str ''a'']) Null)
   \<and> validateRelated sample_env (DocV 3) (sample_state ''book'' (DocV 3) Null)
     = (Return (Arr []), (sample_state ''book'' (DocV 3) Null)\<lparr>world := [Arr [Str ''validate'', DocV 3]]\<rparr>)
   \<and> validateRelated sample_env (Str ''x'') (sample_state ''name'' (Str ''x'') Null)
     = (Return (Arr []), sample_state ''name'' (Str ''x'') Null)"
proof -
  let ?books = "sample_state ''books'' (Arr [Null, DocV 3, DocV 4]) Null"
  let ?tags = "sample_state ''tags'' (Arr [Null, Str ''a'']) Null"
  let ?book = "sample_state ''book'' (DocV 3) Null"
  let ?name = "sample_state ''name'' (Str ''x'') Null"
  let ?dbooks = "\<lparr>def_type = Arr [SchemaV 1], def_get = None, def_set = None,
                  def_defaultValue = Literal Undefined, def_validate = Arr []\<rparr>"
  let ?dtags = "\<lparr>def_type = Arr [Str ''String''], def_get = None, def_set = None,
                 def_defaultValue = Literal Undefined, def_validate = presence_rule\<rparr>"
  let ?dbook = "\<lparr>def_type = SchemaV 1, def_get = None, def_set = None,
                 def_defaultValue = Literal Undefined, def_validate = Arr []\<rparr>"
  let ?dname = "\<lparr>def_type = Str ''String'', def_get = None, def_set = None,
                 def_defaultValue = Literal (Str ''Bar''), def_validate = presence_rule\<rparr>"
  have d1: "schema_fields (schema (document (self ?books))) (name (self ?books)) = Some ?dbooks"
    by (simp add: sample_defs)
  have d2: "schema_fields (schema (document (self ?tags))) (name (self ?tags)) = Some ?dtags"
    by (simp add: sample_defs)
  have d3: "schema_fields (schema (document (self ?book))) (name (self ?book)) = Some ?dbook"
    by (simp add: sample_defs)
  have d4: "schema_fields (schema (document (self ?name))) (name (self ?name)) = Some ?dname"
    by (simp add: sample_defs)
  have "validateRelated sample_env (Arr [Null, DocV 3, DocV 4]) ?books
     = then_do (each_in_order (nested_result sample_env) [Null, DocV 3, DocV 4]) (\<lambda>rs. return (Arr rs)) ?books"
    using validateRelated_by_cases [OF d1, of sample_env 0 "[Null, DocV 3, DocV 4]" Null]
    by simp
  then have r1: "validateRelated sample_env (Arr [Null, DocV 3, DocV 4]) ?books
     = (Return (Arr [Undefined, Arr [], Arr []]),
        ?books\<lparr>world := [Arr [Str ''validate'', DocV 3], Arr [Str ''validate'', DocV 4]]\<rparr>)"
    by (simp add: then_do_def return_def on_world_async_def sample_env_def sample_state_def)
  have "validateRelated sample_env (Arr [Null, Str ''a'']) ?tags
     = then_do (each_in_order (own_rule_result sample_env) [Null, Str ''a'']) (\<lambda>rs. return (Arr rs)) ?tags"
    using validateRelated_by_cases [OF d2, of sample_env 0 "[Null, Str ''a'']" Null]
    by simp
  then have r2: "validateRelated sample_env (Arr [Null, Str ''a'']) ?tags
     = (Return (Arr [Arr [presence_issue], Arr []]), ?tags)"
    by (simp add: own_rule_result_def validateValue_def the_definition_def then_do_def return_def
        on_world_async_def sample_defs)
  have "validateRelated sample_env (DocV 3) ?book
     = on_world_async (document_validate sample_env 3) ?book"
    using validateRelated_by_cases [OF d3, of sample_env 3 "[]" Null]
    by (simp add: sample_env_def)
  then have r3: "validateRelated sample_env (DocV 3) ?book
     = (Return (Arr []), ?book\<lparr>world := [Arr [Str ''validate'', DocV 3]]\<rparr>)"
    by (simp add: on_world_async_def sample_env_def sample_state_def)
  have r4: "validateRelated sample_env (Str ''x'') ?name = (Return (Arr []), ?name)"
    using validateRelated_by_cases [OF d4, of sample_env 0 "[]" "Str ''x''"]
    by simp
  from r1 r2 r3 r4 show ?thesis by simp
qed

section \<open>Claim C7: reset and clear\<close>

text \<open>
  C7, as stated: after \<^verbatim>\<open>clear()\<close> the stored value of every field is null. It is not:
  the sample field \<^verbatim>\<open>alias\<close> has a \<^verbatim>\<open>set\<close> transform, the setter passes the coerced null
  through it, and the field stores the string \<^verbatim>\<open>null-set\<close>.
\<close>

theorem clear_stores_null_counterexample:
  "clear sample_env (sample_state ''alias'' (Str ''a-set'') (Str ''a-set''))
     = (Return (self (sample_state ''alias'' (Str ''null-set'') (Str ''a-set''))),
        sample_state ''alias'' (Str ''null-set'') (Str ''a-set''))
   \<and> stored_value (self (snd (clear sample_env (sample_state ''alias'' (Str ''a-set'') (Str ''a-set'')))))
       \<noteq> Null"
  by (simp add: method_defs sample_defs)

text \<open>
  C7, amended. \<^verbatim>\<open>reset()\<close> assigns \<^verbatim>\<open>defaultValue\<close> through the \<^verbatim>\<open>value\<close> setter, and
  \<^verbatim>\<open>clear()\<close> assigns null through the \<^verbatim>\<open>value\<close> setter without reading the default:
  after \<^verbatim>\<open>clear()\<close> the stored value is the coercion of null, passed through the \<^verbatim>\<open>set\<close>
  transform when the definition has one. It is null when the definition has no \<^verbatim>\<open>set\<close>
  transform and the coercion maps null to null.
\<close>

theorem reset_and_clear_assign_through_setter:
  assumes d: "schema_fields (schema (document (self st))) (name (self st)) = Some d"
    and kn: "cast env Null (def_type d) (cast_options env (self st) (def_type d)) (world st) = (r, w)"
    and dv: "defaultValue env st = (Return v, st1)"
    and kd: "cast env v (def_type d) (cast_options env (self st) (def_type d)) (world st1) = (r', w')"
  shows "clear env st
           = (Return ((self st)\<lparr>stored_value := transform (def_set d) (self st) r\<rparr>),
              st\<lparr>world := w, self := (self st)\<lparr>stored_value := transform (def_set d) (self st) r\<rparr>\<rparr>)
       \<and> (if def_set d = None \<and> r = Null
          then stored_value (self (snd (clear env st))) = Null else True)
       \<and> reset env st
           = (Return ((self st)\<lparr>stored_value := transform (def_set d) (self st) r'\<rparr>),
              st\<lparr>world := w', self := (self st)\<lparr>stored_value := transform (def_set d) (self st) r'\<rparr>\<rparr>)"
proof -
  have sn: "set_value env Null st
     = (Return (), st\<lparr>world := w, self := (self st)\<lparr>stored_value := transform (def_set d) (self st) r\<rparr>\<rparr>)"
    by (rule set_value_eval [OF d kn])
  have cl: "clear env st
           = (Return ((self st)\<lparr>stored_value := transform (def_set d) (self st) r\<rparr>),
              st\<lparr>world := w, self := (self st)\<lparr>stored_value := transform (def_set d) (self st) r\<rparr>\<rparr>)"
    by (simp add: clear_def then_do_def sn)
  have s1: "self st1 = self st"
    using defaultValue_self [of env st] dv by simp
  have d1: "schema_fields (schema (document (self st1))) (name (self st1)) = Some d"
    using d s1 by simp
  have kd1: "cast env v (def_type d) (cast_options env (self st1) (def_type d)) (world st1) = (r', w')"
    using kd s1 by simp
  have sd: "set_value env v st1
     = (Return (), st1\<lparr>world := w', self := (self st1)\<lparr>stored_value := transform (def_set d) (self st1) r'\<rparr>\<rparr>)"
    by (rule set_value_eval [OF d1 kd1])
  have w1: "st1\<lparr>world := w', self := (self st)\<lparr>stored_value := transform (def_set d) (self st) r'\<rparr>\<rparr>
          = st\<lparr>world := w', self := (self st)\<lparr>stored_value := transform (def_set d) (self st) r'\<rparr>\<rparr>"
    using s1 by (cases st, cases st1) simp
  have rs: "reset env st
           = (Return ((self st)\<lparr>stored_value := transform (def_set d) (self st) r'\<rparr>),
              st\<lparr>world := w', self := (self st)\<lparr>stored_value := transform (def_set d) (self st) r'\<rparr>\<rparr>)"
    using w1 by (simp add: reset_def then_do_def dv sd s1)
  have nl: "if def_set d = None \<and> r = Null
          then stored_value (self (snd (clear env st))) = Null else True"
  proof -
    have "def_set d = None \<and> r = Null \<longrightarrow> stored_value (self (snd (clear env st))) = Null"
      using cl by (simp add: transform_def)
    then show ?thesis by (simp only: if_then_else_True)
  qed
  from cl nl rs show ?thesis by simp
qed

theorem reset_and_clear_assign_through_setter_witness:
  "clear sample_env (sample_state ''name'' (Str ''Foo'') (Str ''Foo''))
     = (Return (self (sample_state ''name'' Null (Str ''Foo''))), sample_state ''name'' Null (Str ''Foo''))
   \<and> reset sample_env (sample_state ''name'' (Str ''Foo'') (Str ''Foo''))
     = (Return (self (sample_state ''name'' (Str ''Bar'') (Str ''Foo''))),
        sample_state ''name'' (Str ''Bar'') (Str ''Foo''))"
proof -
  let ?before = "sample_state ''name'' (Str ''Foo'') (Str ''Foo'')"
  let ?d = "\<lparr>def_type = Str ''String'', def_get = None, def_set = None,
             def_defaultValue = Literal (Str ''Bar''), def_validate = presence_rule\<rparr>"
  have d: "schema_fields (schema (document (self ?before))) (name (self ?before)) = Some ?d"
    by (simp add: sample_defs)
  have kn: "cast sample_env Null (def_type ?d) (cast_options sample_env (self ?before) (def_type ?d))
              (world ?before) = (Null, [])"
    by (simp add: sample_defs)
  have dv: "defaultValue sample_env ?before = (Return (Str ''Bar''), ?before)"
    by (simp add: method_defs sample_defs)
  have kd: "cast sample_env (Str ''Bar'') (def_type ?d) (cast_options sample_env (self ?before) (def_type ?d))
              (world ?before) = (Str ''Bar'', [])"
    by (simp add: sample_defs)
  show ?thesis
    using reset_and_clear_assign_through_setter [OF d kn dv kd]
    by (simp add: transform_def sample_state_def)
qed

section \<open>Claim C8: validation leaves the field as it is\<close>

text \<open>
  C8. \<^verbatim>\<open>validate()\<close> writes nothing to the field: the \<^verbatim>\<open>_value\<close> and the
  \<^verbatim>\<open>_initialValue\<close> after the call are those before it, and so is every own property of
  the field (so no error list is stored on it), whether the promise resolves or rejects.
\<close>

theorem validate_leaves_field_unchanged:
  "stored_value (self (snd (validate env st))) = stored_value (self st)
   \<and> stored_initialValue (self (snd (validate env st))) = stored_initialValue (self st)
   \<and> (\<forall>k. get_prop (self (snd (validate env st))) k = get_prop (self st) k)"
  by (simp add: validate_self)

theorem validate_leaves_field_unchanged_witness:
  "fst (validate sample_env (sample_state ''name'' Null (Str ''Bar'')))
     = Return (InvalidFieldError (Str ''name'') (Arr [presence_issue]) (Arr [])
                 (Str ''Field validation failed'') (Num 422))
   \<and> stored_value (self (snd (validate sample_env (sample_state ''name'' Null (Str ''Bar''))))) = Null
   \<and> stored_initialValue (self (snd (validate sample_env (sample_state ''name'' Null (Str ''Bar'')))))
       = Str ''Bar''
   \<and> get_prop (self (snd (validate sample_env (sample_state ''name'' Null (Str ''Bar''))))) ''errors''
       = Undefined"
proof -
  have "fst (validate sample_env (sample_state ''name'' Null (Str ''Bar'')))
     = Return (InvalidFieldError (Str ''name'') (Arr [presence_issue]) (Arr [])
                 (Str ''Field validation failed'') (Num 422))"
    by (simp add: method_defs sample_defs)
  then show ?thesis
    using validate_leaves_field_unchanged [of sample_env "sample_state ''name'' Null (Str ''Bar'')"]
    by (simp add: sample_state_def get_prop_def)
qed

section \<open>Claim C9: what leaves the initial value alone\<close>

text \<open>
  C9. Assigning through the \<^verbatim>\<open>value\<close> setter, \<^verbatim>\<open>reset()\<close>, \<^verbatim>\<open>clear()\<close>,
  \<^verbatim>\<open>rollback()\<close>, \<^verbatim>\<open>equals()\<close> and \<^verbatim>\<open>isChanged()\<close> all leave \<^verbatim>\<open>_initialValue\<close> as it
  was, whether they return or throw; only the constructor and \<^verbatim>\<open>commit()\<close> write it.
\<close>

theorem initialValue_written_only_by_constructor_and_commit:
  "stored_initialValue (self (snd (set_value env v st))) = stored_initialValue (self st)
   \<and> stored_initialValue (self (snd (reset env st))) = stored_initialValue (self st)
   \<and> stored_initialValue (self (snd (clear env st))) = stored_initialValue (self st)
   \<and> stored_initialValue (self (snd (rollback env st))) = stored_initialValue (self st)
   \<and> stored_initialValue (self (snd (equals env data st))) = stored_initialValue (self st)
   \<and> stored_initialValue (self (snd (isChanged env st))) = stored_initialValue (self st)"
  by (simp add: set_value_frame reset_frame clear_frame rollback_frame equals_state
      isChanged_state)

theorem initialValue_written_only_by_constructor_and_commit_witness:
  "stored_initialValue (self (snd (set_value sample_env (Str ''Foo'') (sample_state ''nick'' (Str ''a-set'') (Str ''b''))))) = Str ''b''
   \<and> stored_initialValue (self (snd (reset sample_env (sample_state ''nick'' (Str ''a-set'') (Str ''b''))))) = Str ''b''
   \<and> stored_initialValue (self (snd (clear sample_env (sample_state ''nick'' (Str ''a-set'') (Str ''b''))))) = Str ''b''
   \<and> stored_initialValue (self (snd (rollback sample_env (sample_state ''nick'' (Str ''a-set'') (Str ''b''))))) = Str ''b''
   \<and> stored_initialValue (self (snd (equals sample_env (Str ''b'') (sample_state ''nick'' (Str ''a-set'') (Str ''b''))))) = Str ''b''
   \<and> stored_initialValue (self (snd (isChanged sample_env (sample_state ''nick'' (Str ''a-set'') (Str ''b''))))) = Str ''b''"
  using initialValue_written_only_by_constructor_and_commit
    [of sample_env "Str ''Foo''" "sample_state ''nick'' (Str ''a-set'') (Str ''b'')" "Str ''b''"]
  by (simp add: sample_state_def)

section \<open>Claim C10: the state of a field right after construction\<close>

text \<open>
  C10. When the schema of the document defines the field, the constructor returns, and
  it evaluates \<^verbatim>\<open>defaultValue\<close> once: the stored value and the initial value of the new
  field are that one result (the state after construction is the state after this single
  evaluation, with the two properties set). For a definition with no \<^verbatim>\<open>get\<close> transform,
  \<^verbatim>\<open>isChanged()\<close> is then false, deep equality of the value with itself provided.
\<close>

theorem constructed_value_is_initial_value:
  assumes d: "schema_fields (schema doc) nm = Some d"
  shows "\<exists>st. Field_constructor env doc nm w = (Return (), st)
          \<and> stored_initialValue (self st) = stored_value (self st)
          \<and> defaultValue env (uninitialised doc nm w)
              = (Return (stored_value (self st)), st\<lparr>self := self (uninitialised doc nm w)\<rparr>)
          \<and> (if def_get d = None
                 \<and> deepEqual env (world st) (stored_value (self st)) (stored_value (self st))
              then isChanged env st = (Return False, st) else True)"
proof -
  let ?init = "uninitialised doc nm w"
  have d0: "schema_fields (schema (document (self ?init))) (name (self ?init)) = Some d"
    using d by (simp add: uninitialised_def)
  obtain v w' where dv: "defaultValue env ?init = (Return v, ?init\<lparr>world := w'\<rparr>)"
    using defaultValue_returns [OF d0] by blast
  let ?made = "?init\<lparr>world := w', self := (self ?init)\<lparr>stored_value := v, stored_initialValue := v\<rparr>\<rparr>"
  have c: "Field_constructor env doc nm w = (Return (), ?made)"
    using dv by (simp add: Field_constructor_def then_do_def Let_def uninitialised_def)
  have d1: "schema_fields (schema (document (self ?made))) (name (self ?made)) = Some d"
    using d by (simp add: uninitialised_def)
  have ch: "isChanged env ?made =
     (Return (\<not> deepEqual env (world ?made) (transform (def_get d) (self ?made) (stored_value (self ?made)))
                 (stored_initialValue (self ?made))), ?made)"
    by (rule isChanged_eval [OF d1])
  have "stored_initialValue (self ?made) = stored_value (self ?made)" by simp
  moreover have "defaultValue env ?init = (Return (stored_value (self ?made)), ?made\<lparr>self := self ?init\<rparr>)"
    using dv by (simp add: uninitialised_def)
  moreover have "if def_get d = None
                 \<and> deepEqual env (world ?made) (stored_value (self ?made)) (stored_value (self ?made))
              then isChanged env ?made = (Return False, ?made) else True"
    using ch by (simp add: transform_def)
  ultimately show ?thesis using c by blast
qed

theorem constructed_value_is_initial_value_witness:
  "Field_constructor sample_env sample_document ''name'' []
     = (Return (), sample_state ''name'' (Str ''Bar'') (Str ''Bar''))
   \<and> isChanged sample_env (sample_state ''name'' (Str ''Bar'') (Str ''Bar''))
     = (Return False, sample_state ''name'' (Str ''Bar'') (Str ''Bar''))"
proof -
  let ?d = "\<lparr>def_type = Str ''String'', def_get = None, def_set = None,
             def_defaultValue = Literal (Str ''Bar''), def_validate = presence_rule\<rparr>"
  have d: "schema_fields (schema sample_document) ''name'' = Some ?d"
    by (simp add: sample_document_def sample_fields_def)
  have c: "Field_constructor sample_env sample_document ''name'' []
     = (Return (), sample_state ''name'' (Str ''Bar'') (Str ''Bar''))"
    by (simp add: method_defs sample_defs)
  from constructed_value_is_initial_value [OF d, of sample_env "[]"] c
  have "if def_get ?d = None
          \<and> deepEqual sample_env (world (sample_state ''name'' (Str ''Bar'') (Str ''Bar'')))
               (stored_value (self (sample_state ''name'' (Str ''Bar'') (Str ''Bar''))))
               (stored_value (self (sample_state ''name'' (Str ''Bar'') (Str ''Bar''))))
        then isChanged sample_env (sample_state ''name'' (Str ''Bar'') (Str ''Bar''))
             = (Return False, sample_state ''name'' (Str ''Bar'') (Str ''Bar''))
        else True"
    by auto
  then have "isChanged sample_env (sample_state ''name'' (Str ''Bar'') (Str ''Bar''))
     = (Return False, sample_state ''name'' (Str ''Bar'') (Str ''Bar''))"
    by (simp add: sample_env_def)
  with c show ?thesis by simp
qed

end
